theory Spec2Isabelle
  imports Complex_Main "HOL-Library.Word"
begin

section \<open>Go numeric values\<close>

text \<open>
  Go's \<open>int\<close> on a 64-bit platform and \<open>int64\<close> are 64-bit two's complement words,
  read with \<open>sint\<close>.  A \<open>float32\<close> or \<open>float64\<close> value is either a finite rational or one
  of the three special values; the code below never does floating-point arithmetic, it
  only compares a weight with a constant and converts between integers and floats.
\<close>

type_synonym goint = "64 word"

datatype float = Finite rat | PosInf | NegInf | NaN

text \<open>\<open>x > c\<close> for a finite constant \<open>c\<close>; a comparison with NaN is false.\<close>

definition float_gt :: "float \<Rightarrow> rat \<Rightarrow> bool" where
  "float_gt x c = (case x of Finite r \<Rightarrow> c < r | PosInf \<Rightarrow> True | NegInf \<Rightarrow> False | NaN \<Rightarrow> False)"

text \<open>
  The untyped constant \<open>0.001\<close> compared with a \<open>float32\<close> variable is converted to
  \<open>float32\<close>: the nearest value with a 24-bit significand, \<open>0x3A83126F\<close>.
\<close>

definition const_0_001 :: rat where
  "const_0_001 = 8589935 / 2 ^ 33"

text \<open>Number of binary digits of a positive integer.\<close>

function bitlen :: "int \<Rightarrow> nat" where
  "bitlen n = (if n \<le> 0 then 0 else Suc (bitlen (n div 2)))"
  by pat_completeness auto
termination
  by (relation "measure nat") auto

declare bitlen.simps [simp del]

text \<open>
  \<open>float32(n)\<close> for an integer \<open>n\<close>: exact below \<open>2^24\<close> in magnitude, otherwise rounded
  to 24 significant bits, to nearest, ties to even.  No 64-bit integer overflows the
  exponent range, so the result is finite.
\<close>

definition float32_of_int :: "int \<Rightarrow> float" where
  "float32_of_int n =
     (let a = \<bar>n\<bar> in
      if a < 2 ^ 24 then Finite (of_int n)
      else
        let e = bitlen a - 24;
            q = a div 2 ^ e;
            r = a mod 2 ^ e;
            h = 2 ^ (e - 1);
            q' = (if h < r \<or> (r = h \<and> odd q) then q + 1 else q)
        in Finite (of_int (sgn n * (q' * 2 ^ e))))"

text \<open>Rounding towards zero, as Go's float to integer conversion does.\<close>

definition trunc :: "rat \<Rightarrow> int" where
  "trunc r = (if 0 \<le> r then \<lfloor>r\<rfloor> else \<lceil>r\<rceil>)"

text \<open>
  \<open>int(x)\<close> and \<open>int64(x)\<close> for a float \<open>x\<close>.  When the truncated value does not fit the
  result type (and for NaN and the infinities) Go leaves the result
  implementation-dependent: \<open>oor\<close> is what the platform yields there.
\<close>

definition int_of_float :: "(float \<Rightarrow> goint) \<Rightarrow> float \<Rightarrow> goint" where
  "int_of_float oor x =
     (case x of
        Finite r \<Rightarrow>
          (let t = trunc r in
           if - (2 ^ 63) \<le> t \<and> t < 2 ^ 63 then word_of_int t else oor x)
      | _ \<Rightarrow> oor x)"


section \<open>The rollout target\<close>

text \<open>
  The router reads a canary object only through \<open>GetServiceNames\<close> and its namespace.
  The naming triple is carried by the object.
\<close>

record Canary =
  apexName :: string
  primaryName :: string
  canaryName :: string
  Namespace :: string

definition GetServiceNames :: "Canary \<Rightarrow> string \<times> string \<times> string" where
  "GetServiceNames canary = (apexName canary, primaryName canary, canaryName canary)"


section \<open>Consul configuration entries\<close>

record ServiceSplit =
  split_Weight :: float
  split_Service :: string
  split_ServiceSubset :: string

record ServiceSplitterConfigEntry =
  splitter_Kind :: string
  splitter_Name :: string
  Splits :: "ServiceSplit list"

record ServiceResolverSubset =
  Filter :: string

record ServiceResolverFailover =
  failover_Service :: string
  failover_ServiceSubset :: string
  Datacenters :: "string list"

record ServiceResolverConfigEntry =
  resolver_Kind :: string
  resolver_Name :: string
  DefaultSubset :: string
  Subsets :: "string \<rightharpoonup> ServiceResolverSubset"
  Failover :: "string \<rightharpoonup> ServiceResolverFailover"

definition ServiceSplitter :: string where
  "ServiceSplitter = ''service-splitter''"

definition ServiceResolver :: string where
  "ServiceResolver = ''service-resolver''"

text \<open>
  The \<open>ConfigEntry\<close> interface: the two entry types the router writes, and any other
  entry (kind and name), which the type assertion of \<open>GetRoutes\<close> rejects.
\<close>

datatype ConfigEntry =
    Splitter ServiceSplitterConfigEntry
  | Resolver ServiceResolverConfigEntry
  | OtherEntry string string

fun GetKind :: "ConfigEntry \<Rightarrow> string" where
  "GetKind (Splitter e) = splitter_Kind e"
| "GetKind (Resolver e) = resolver_Kind e"
| "GetKind (OtherEntry k n) = k"

fun GetName :: "ConfigEntry \<Rightarrow> string" where
  "GetName (Splitter e) = splitter_Name e"
| "GetName (Resolver e) = resolver_Name e"
| "GetName (OtherEntry k n) = n"


section \<open>The Consul client and the logger\<close>

text \<open>
  The router's collaborators, as state: the configuration entries stored under kind and
  name, how the agent answers (a read of a key may fail, a write may be refused or fail,
  the catalog lists the datacenters or fails), the \<open>Set\<close> calls issued so far and the
  warnings logged so far.
\<close>

record consul =
  entries :: "string \<times> string \<rightharpoonup> ConfigEntry"
  get_failure :: "string \<times> string \<rightharpoonup> string"
  set_outcome :: "ConfigEntry \<Rightarrow> string + bool"
  datacenters :: "string + string list"
  set_calls :: "ConfigEntry list"
  warnings :: "string list"

text \<open>\<open>ConfigEntries().Get(kind, name, nil)\<close>: an absent entry is an error (HTTP 404).\<close>

definition ConfigEntries_Get :: "string \<Rightarrow> string \<Rightarrow> consul \<Rightarrow> string + ConfigEntry" where
  "ConfigEntries_Get kind name s =
     (case get_failure s (kind, name) of
        Some err \<Rightarrow> Inl err
      | None \<Rightarrow>
          (case entries s (kind, name) of
             None \<Rightarrow> Inl ''Unexpected response code: 404''
           | Some entry \<Rightarrow> Inr entry))"

text \<open>
  \<open>ConfigEntries().Set(entry, nil)\<close>: the call is recorded; the entry replaces the one
  stored under its kind and name only when the agent answers \<open>true\<close>.
\<close>

definition ConfigEntries_Set :: "ConfigEntry \<Rightarrow> consul \<Rightarrow> (string + bool) \<times> consul" where
  "ConfigEntries_Set entry s =
     (let s' = s\<lparr>set_calls := set_calls s @ [entry]\<rparr> in
      case set_outcome s entry of
        Inl err \<Rightarrow> (Inl err, s')
      | Inr False \<Rightarrow> (Inr False, s')
      | Inr True \<Rightarrow>
          (Inr True, s'\<lparr>entries := (entries s)((GetKind entry, GetName entry) \<mapsto> entry)\<rparr>))"

definition Catalog_Datacenters :: "consul \<Rightarrow> string + string list" where
  "Catalog_Datacenters s = datacenters s"

definition Warnf :: "string \<Rightarrow> consul \<Rightarrow> consul" where
  "Warnf msg s = s\<lparr>warnings := warnings s @ [msg]\<rparr>"


section \<open>The Consul Connect router\<close>

text \<open>
  One constructor for each \<open>fmt.Errorf\<close> of the router, with the apex name, the
  namespace and the wrapped error where there is one.
\<close>

datatype error =
    SetSplitterFailed string string string
  | ResolverCreationFailed string string string
  | ResolverNotCreated string string
  | SplitterNotFound string string string
  | BadSplitter string string
  | NoRoutes string string

definition updateSplitter :: "Canary \<Rightarrow> float \<Rightarrow> float \<Rightarrow> consul \<Rightarrow> error option \<times> consul" where
  "updateSplitter canary primaryWeight secondaryWeight s =
     (case GetServiceNames canary of (apex, _, _) \<Rightarrow>
       (let splits0 = [];
            splits1 =
              (if float_gt primaryWeight const_0_001
               then splits0 @ [\<lparr>split_Weight = primaryWeight, split_Service = apex,
                                split_ServiceSubset = ''primary''\<rparr>]
               else splits0);
            splits2 =
              (if float_gt secondaryWeight const_0_001
               then splits1 @ [\<lparr>split_Weight = secondaryWeight, split_Service = apex,
                                split_ServiceSubset = ''canary''\<rparr>]
               else splits1);
            splitter = \<lparr>splitter_Kind = ServiceSplitter, splitter_Name = apex,
                        Splits = splits2\<rparr>
        in case ConfigEntries_Set (Splitter splitter) s of
             (Inl err, s') \<Rightarrow> (Some (SetSplitterFailed apex (Namespace canary) err), s')
           | (Inr _, s') \<Rightarrow> (None, s')))"

definition quote :: string where
  "quote = [CHR 0x22]"

definition nl :: string where
  "nl = [CHR 0x0A]"

definition tabs :: "nat \<Rightarrow> string" where
  "tabs n = replicate n (CHR 0x09)"

definition reconcileResolver :: "Canary \<Rightarrow> consul \<Rightarrow> error option \<times> consul" where
  "reconcileResolver canary s =
     (case GetServiceNames canary of (apex, primary, _) \<Rightarrow>
       (let (dcs0, s1) =
              (case Catalog_Datacenters s of
                 Inl err \<Rightarrow> ([], Warnf (''Failed to fetch dc list '' @ err) s)
               | Inr ds \<Rightarrow> (ds, s));
            dcs = (if 1 \<le> length dcs0 then drop 1 dcs0 else dcs0);
            resolver0 =
              \<lparr>resolver_Kind = ServiceResolver, resolver_Name = apex,
               DefaultSubset = ''primary'',
               Subsets =
                 [''primary'' \<mapsto> \<lparr>Filter = ''Service.ID matches '' @ quote @ primary @ ''-.+'' @ quote\<rparr>,
                  ''canary'' \<mapsto> \<lparr>Filter = ''Service.ID not matches '' @ quote @ primary @ ''-.+'' @ quote\<rparr>],
               Failover = Map.empty\<rparr>;
            resolver =
              (if 0 < length dcs
               then resolver0\<lparr>Failover :=
                      [''primary'' \<mapsto> \<lparr>failover_Service = apex, failover_ServiceSubset = ''primary'',
                                       Datacenters = dcs\<rparr>,
                       ''canary'' \<mapsto> \<lparr>failover_Service = apex, failover_ServiceSubset = ''canary'',
                                      Datacenters = dcs\<rparr>]\<rparr>
               else resolver0)
        in case ConfigEntries_Set (Resolver resolver) s1 of
             (Inl err, s') \<Rightarrow> (Some (ResolverCreationFailed apex (Namespace canary) err), s')
           | (Inr result, s') \<Rightarrow>
               if \<not> result then (Some (ResolverNotCreated apex (Namespace canary)), s')
               else (None, s')))"

definition reconcileSplitter :: "Canary \<Rightarrow> consul \<Rightarrow> error option \<times> consul" where
  "reconcileSplitter canary s =
     (case GetServiceNames canary of (apex, _, _) \<Rightarrow>
       (case ConfigEntries_Get ServiceSplitter apex s of
          Inl err \<Rightarrow>
            (case updateSplitter canary (Finite 100) (Finite 0) s of
               (Some err', s') \<Rightarrow> (Some err', s')
             | (None, s') \<Rightarrow> (None, s'))
        | Inr _ \<Rightarrow> (None, s)))"

definition Reconcile :: "Canary \<Rightarrow> consul \<Rightarrow> error option \<times> consul" where
  "Reconcile canary s =
     (case reconcileResolver canary s of
        (Some err, s1) \<Rightarrow> (Some err, s1)
      | (None, s1) \<Rightarrow>
          (case reconcileSplitter canary s1 of
             (Some err, s2) \<Rightarrow> (Some err, s2)
           | (None, s2) \<Rightarrow> (None, s2)))"

text \<open>The loop of \<open>GetRoutes\<close> over the stored splits: a later entry overrides an earlier one.\<close>

fun scanSplits :: "(float \<Rightarrow> goint) \<Rightarrow> ServiceSplit list \<Rightarrow> goint \<times> goint \<Rightarrow> goint \<times> goint" where
  "scanSplits oor [] (primaryWeight, canaryWeight) = (primaryWeight, canaryWeight)"
| "scanSplits oor (split # rest) (primaryWeight, canaryWeight) =
     (let primaryWeight' =
            (if split_ServiceSubset split = ''primary''
             then int_of_float oor (split_Weight split) else primaryWeight);
          canaryWeight' =
            (if split_ServiceSubset split = ''canary''
             then int_of_float oor (split_Weight split) else canaryWeight)
      in scanSplits oor rest (primaryWeight', canaryWeight'))"

text \<open>
  \<open>GetRoutes\<close> has named results, all zero at entry; every \<open>return\<close> yields the four of
  them, also when \<open>err\<close> is set.
\<close>

definition GetRoutes :: "(float \<Rightarrow> goint) \<Rightarrow> Canary \<Rightarrow> consul \<Rightarrow> goint \<times> goint \<times> bool \<times> error option" where
  "GetRoutes oor canary s =
     (case GetServiceNames canary of (apex, _, _) \<Rightarrow>
       (case ConfigEntries_Get ServiceSplitter apex s of
          Inl err \<Rightarrow> (0, 0, False, Some (SplitterNotFound apex (Namespace canary) err))
        | Inr entry \<Rightarrow>
            (case entry of
               Splitter readSplitter \<Rightarrow>
                 (case scanSplits oor (Splits readSplitter) (0, 0) of
                    (primaryWeight, canaryWeight) \<Rightarrow>
                      if primaryWeight = 0 \<and> canaryWeight = 0
                      then (primaryWeight, canaryWeight, False,
                            Some (NoRoutes apex (Namespace canary)))
                      else (primaryWeight, canaryWeight, False, None))
             | _ \<Rightarrow> (0, 0, False, Some (BadSplitter apex (Namespace canary))))))"

definition SetRoutes :: "Canary \<Rightarrow> goint \<Rightarrow> goint \<Rightarrow> bool \<Rightarrow> consul \<Rightarrow> error option \<times> consul" where
  "SetRoutes canary primaryWeight canaryWeight mirrored s =
     updateSplitter canary (float32_of_int (sint primaryWeight))
       (float32_of_int (sint canaryWeight)) s"


section \<open>What a run of the router did\<close>

text \<open>The \<open>Set\<close> calls issued between two states, and the entries of each type among them.\<close>

definition calls_during :: "consul \<Rightarrow> consul \<Rightarrow> ConfigEntry list" where
  "calls_during s s' = drop (length (set_calls s)) (set_calls s')"

fun splitters_of :: "ConfigEntry list \<Rightarrow> ServiceSplitterConfigEntry list" where
  "splitters_of [] = []"
| "splitters_of (Splitter e # es) = e # splitters_of es"
| "splitters_of (_ # es) = splitters_of es"

fun resolvers_of :: "ConfigEntry list \<Rightarrow> ServiceResolverConfigEntry list" where
  "resolvers_of [] = []"
| "resolvers_of (Resolver e # es) = e # resolvers_of es"
| "resolvers_of (_ # es) = resolvers_of es"


text \<open>
  The splitter that \<open>updateSplitter\<close> sends for a pair of weights, and the resolver that
  \<open>reconcileResolver\<close> sends for a list of remote datacenters.
\<close>

abbreviation sent_splitter :: "Canary \<Rightarrow> float \<Rightarrow> float \<Rightarrow> ConfigEntry" where
  "sent_splitter canary pw sw \<equiv>
     Splitter \<lparr>splitter_Kind = ServiceSplitter, splitter_Name = apexName canary,
        Splits =
          (if float_gt pw const_0_001
           then [\<lparr>split_Weight = pw, split_Service = apexName canary,
                   split_ServiceSubset = ''primary''\<rparr>] else [])
          @ (if float_gt sw const_0_001
             then [\<lparr>split_Weight = sw, split_Service = apexName canary,
                     split_ServiceSubset = ''canary''\<rparr>] else [])\<rparr>"

abbreviation sent_resolver :: "Canary \<Rightarrow> string list \<Rightarrow> ConfigEntry" where
  "sent_resolver canary dcs \<equiv>
     Resolver \<lparr>resolver_Kind = ServiceResolver, resolver_Name = apexName canary,
        DefaultSubset = ''primary'',
        Subsets =
          [''primary'' \<mapsto>
             \<lparr>Filter = ''Service.ID matches '' @ quote @ primaryName canary @ ''-.+'' @ quote\<rparr>,
           ''canary'' \<mapsto>
             \<lparr>Filter = ''Service.ID not matches '' @ quote @ primaryName canary @ ''-.+'' @ quote\<rparr>],
        Failover =
          (if dcs = [] then Map.empty
           else [''primary'' \<mapsto> \<lparr>failover_Service = apexName canary,
                                  failover_ServiceSubset = ''primary'', Datacenters = dcs\<rparr>,
                 ''canary'' \<mapsto> \<lparr>failover_Service = apexName canary,
                                 failover_ServiceSubset = ''canary'', Datacenters = dcs\<rparr>])\<rparr>"

text \<open>The split that \<open>reconcileSplitter\<close> starts a target with.\<close>

abbreviation bootstrap :: "Canary \<Rightarrow> ConfigEntry" where
  "bootstrap canary \<equiv>
     Splitter \<lparr>splitter_Kind = ServiceSplitter, splitter_Name = apexName canary,
       Splits = [\<lparr>split_Weight = Finite 100, split_Service = apexName canary,
                  split_ServiceSubset = ''primary''\<rparr>]\<rparr>"

text \<open>The datacenters left after discovery: none when it fails, otherwise all but the first.\<close>

abbreviation remote_datacenters :: "consul \<Rightarrow> string list" where
  "remote_datacenters s \<equiv> (case datacenters s of Inl err \<Rightarrow> [] | Inr ds \<Rightarrow> drop 1 ds)"


section \<open>How Consul reads a subset filter\<close>















section \<open>The Connect metrics observer\<close>

definition connectQueries :: "string \<rightharpoonup> string" where
  "connectQueries =
     [''request-success-rate'' \<mapsto>
      nl @
      tabs 1 @ ''sum('' @ nl @
      tabs 2 @ ''rate('' @ nl @
      tabs 3 @ ''envoy_cluster_upstream_rq{'' @ nl @
      tabs 4 @ ''consul_service='' @ quote @ ''{{ target }}'' @ quote @ '','' @ nl @
      tabs 4 @ ''consul_service_subset='' @ quote @ ''canary'' @ quote @ '','' @ nl @
      tabs 4 @ ''envoy_response_code!~'' @ quote @ ''5.*'' @ quote @ nl @
      tabs 3 @ ''}[{{ interval }}]'' @ nl @
      tabs 2 @ '')'' @ nl @
      tabs 1 @ '') '' @ nl @
      tabs 1 @ ''/ '' @ nl @
      tabs 1 @ ''sum('' @ nl @
      tabs 2 @ ''rate('' @ nl @
      tabs 3 @ ''envoy_cluster_upstream_rq{'' @ nl @
      tabs 4 @ ''consul_service='' @ quote @ ''{{ target }}'' @ quote @ '','' @ nl @
      tabs 4 @ ''consul_service_subset='' @ quote @ ''canary'' @ quote @ nl @
      tabs 3 @ ''}[{{ interval }}]'' @ nl @
      tabs 2 @ '')'' @ nl @
      tabs 1 @ '') '' @ nl @
      tabs 1 @ ''* 100'',
      ''request-duration'' \<mapsto>
      nl @
      tabs 1 @ ''histogram_quantile('' @ nl @
      tabs 2 @ ''0.99,'' @ nl @
      tabs 2 @ ''sum('' @ nl @
      tabs 3 @ ''rate('' @ nl @
      tabs 4 @ ''envoy_cluster_upstream_rq_time_bucket{'' @ nl @
      tabs 5 @ ''consul_service='' @ quote @ ''{{ target }}'' @ quote @ '','' @ nl @
      tabs 5 @ ''consul_service_subset='' @ quote @ ''canary'' @ quote @ nl @
      tabs 4 @ ''}[{{ interval }}]'' @ nl @
      tabs 3 @ '')'' @ nl @
      tabs 2 @ '') by (le)'' @ nl @
      tabs 1 @ '')'']"

text \<open>Indexing a Go map: the empty string for a key it does not have.\<close>

definition query_text :: "string \<Rightarrow> string" where
  "query_text kind = (case connectQueries kind of None \<Rightarrow> [] | Some t \<Rightarrow> t)"

text \<open>\<open>time.Duration\<close> is an \<open>int64\<close> count of nanoseconds; its arithmetic wraps around.\<close>

type_synonym Duration = "64 word"

definition Millisecond :: Duration where
  "Millisecond = 1000000"

text \<open>The observer holds a metrics client, an interface with the one method \<open>RunQuery\<close>.\<close>

record ConnectObserver =
  RunQuery :: "string \<Rightarrow> string + float"

datatype observer_error = RenderingFailed string | RunningFailed string

text \<open>
  \<open>RenderQuery\<close>, which fills a template from the model, and the model's type belong to
  other packages: the observer takes the renderer as it is given.
\<close>

definition GetRequestSuccessRate ::
  "(string \<Rightarrow> 'model \<Rightarrow> string + string) \<Rightarrow> ConnectObserver \<Rightarrow> 'model \<Rightarrow> observer_error + float" where
  "GetRequestSuccessRate RenderQuery ob model =
     (case RenderQuery (query_text ''request-success-rate'') model of
        Inl err \<Rightarrow> Inl (RenderingFailed err)
      | Inr query \<Rightarrow>
          (case RunQuery ob query of
             Inl err \<Rightarrow> Inl (RunningFailed err)
           | Inr val \<Rightarrow> Inr val))"

definition GetRequestDuration ::
  "(string \<Rightarrow> 'model \<Rightarrow> string + string) \<Rightarrow> (float \<Rightarrow> goint) \<Rightarrow> ConnectObserver \<Rightarrow> 'model
     \<Rightarrow> observer_error + Duration" where
  "GetRequestDuration RenderQuery oor ob model =
     (case RenderQuery (query_text ''request-duration'') model of
        Inl err \<Rightarrow> Inl (RenderingFailed err)
      | Inr query \<Rightarrow>
          (case RunQuery ob query of
             Inl err \<Rightarrow> Inl (RunningFailed err)
           | Inr val \<Rightarrow> Inr (int_of_float oor val * Millisecond)))"


section \<open>Concrete inputs\<close>

text \<open>A target, agents in several states, a platform and a metrics client to run the code on.\<close>

definition app :: Canary where
  "app = \<lparr>apexName = ''app'', primaryName = ''app-v1'', canaryName = ''app-v2'',
          Namespace = ''prod''\<rparr>"

definition oor_min :: "float \<Rightarrow> goint" where
  "oor_min x = - (2 ^ 63)"

definition accept_all :: "ConfigEntry \<Rightarrow> string + bool" where
  "accept_all entry = Inr True"

definition fresh_agent :: consul where
  "fresh_agent =
     \<lparr>entries = Map.empty, get_failure = Map.empty, set_outcome = accept_all,
      datacenters = Inr [''dc1'', ''dc2'', ''dc3''], set_calls = [], warnings = []\<rparr>"

definition split_50_50 :: ConfigEntry where
  "split_50_50 =
     Splitter \<lparr>splitter_Kind = ServiceSplitter, splitter_Name = ''app'',
       Splits = [\<lparr>split_Weight = Finite 50, split_Service = ''app'', split_ServiceSubset = ''primary''\<rparr>,
                 \<lparr>split_Weight = Finite 50, split_Service = ''app'', split_ServiceSubset = ''canary''\<rparr>]\<rparr>"

definition weighted_agent :: consul where
  "weighted_agent = fresh_agent\<lparr>entries := [(ServiceSplitter, ''app'') \<mapsto> split_50_50]\<rparr>"

definition flaky_agent :: consul where
  "flaky_agent = weighted_agent\<lparr>get_failure := [(ServiceSplitter, ''app'') \<mapsto> ''connection reset'']\<rparr>"

definition stray_split :: ConfigEntry where
  "stray_split =
     Splitter \<lparr>splitter_Kind = ServiceSplitter, splitter_Name = ''app'',
       Splits = [\<lparr>split_Weight = Finite 100, split_Service = ''app'', split_ServiceSubset = ''v3''\<rparr>]\<rparr>"

definition corrupted_agent :: consul where
  "corrupted_agent = fresh_agent\<lparr>entries := [(ServiceSplitter, ''app'') \<mapsto> stray_split]\<rparr>"

definition render_verbatim :: "string \<Rightarrow> unit \<Rightarrow> string + string" where
  "render_verbatim template model = Inr template"

definition answering :: "float \<Rightarrow> ConnectObserver" where
  "answering v = \<lparr>RunQuery = (\<lambda>query. Inr v)\<rparr>"


text \<open>The \<open>float64\<close> nearest to \<open>250.9\<close>.\<close>

definition double_250_9 :: rat where
  "double_250_9 = 8827758957087949 / 2 ^ 45"


section \<open>Properties of the router\<close>

lemmas router_defs =
  SetRoutes_def updateSplitter_def GetServiceNames_def float_gt_def const_0_001_def
  ConfigEntries_Set_def ConfigEntries_Get_def GetRoutes_def int_of_float_def trunc_def Let_def

text \<open>
  The constant the weights are compared with is the \<open>float32\<close> nearest to one thousandth:
  it lies within half a unit in the last place (\<open>2^-34\<close>) of it.
\<close>

lemma const_0_001_nearest: "\<bar>const_0_001 - 1 / 1000\<bar> < 1 / 2 ^ 34"
  by (simp add: const_0_001_def)

lemma scanSplits_other_subsets:
  "\<forall>split \<in> set xs.
      split_ServiceSubset split \<noteq> ''primary'' \<and> split_ServiceSubset split \<noteq> ''canary''
   \<Longrightarrow> scanSplits oor xs acc = acc"
  by (induction xs arbitrary: acc) (auto simp: Let_def)

subsection \<open>Integer weights as floats\<close>

lemma bitlen_bounds: "0 < a \<Longrightarrow> 2 ^ (bitlen a - 1) \<le> a \<and> a < 2 ^ bitlen a"
proof (induction a rule: bitlen.induct)
  case (1 n)
  show ?case
  proof (cases "n div 2 = 0")
    case True
    with "1.prems" have n1: "n = 1" by presburger
    have "bitlen 1 = 1" by (simp add: bitlen.simps)
    with n1 show ?thesis by simp
  next
    case False
    with "1.prems" have pos: "0 < n div 2" by presburger
    from "1.prems" have step: "bitlen n = Suc (bitlen (n div 2))"
      by (subst bitlen.simps) simp
    from "1.IH" "1.prems" pos
    have ih: "2 ^ (bitlen (n div 2) - 1) \<le> n div 2" "n div 2 < 2 ^ bitlen (n div 2)"
      by auto
    from pos have bpos: "0 < bitlen (n div 2)"
      by (subst bitlen.simps) simp
    then obtain m where m: "bitlen (n div 2) = Suc m" by (cases "bitlen (n div 2)") auto
    from ih m have "2 * 2 ^ m \<le> n" "n < 2 * 2 ^ Suc m" by auto
    with step m show ?thesis by simp
  qed
qed

lemma float32_of_int_range:
  assumes lo: "1 \<le> n" and hi: "n < 2 ^ 63 - 2 ^ 38"
  shows "\<exists>k. float32_of_int n = Finite (of_int k) \<and> 1 \<le> k \<and> k < 2 ^ 63"
proof (cases "n < 2 ^ 24")
  case True
  with lo show ?thesis
    by (intro exI [of _ n]) (simp add: float32_of_int_def)
next
  case False
  define b where "b = bitlen n"
  define e where "e = b - 24"
  define q where "q = n div 2 ^ e"
  define r where "r = n mod 2 ^ e"
  define q' where "q' = (if 2 ^ (e - 1) < r \<or> (r = 2 ^ (e - 1) \<and> odd q) then q + 1 else q)"
  from lo have b: "2 ^ (b - 1) \<le> n" "n < 2 ^ b"
    using bitlen_bounds [of n] by (simp_all add: b_def)
  have b_lo: "24 < b"
  proof (rule ccontr)
    assume "\<not> 24 < b"
    then have "b \<le> 24" by simp
    then have "(2::int) ^ b \<le> 2 ^ 24" by (rule power_increasing) simp
    with b False show False by linarith
  qed
  have b_hi: "b \<le> 63"
  proof (rule ccontr)
    assume "\<not> b \<le> 63"
    then have "63 \<le> b - 1" by simp
    then have "(2::int) ^ 63 \<le> 2 ^ (b - 1)" by (rule power_increasing) simp
    with b hi show False by simp
  qed
  from b_lo have "b = e + 24" by (simp add: e_def)
  then have pow: "(2::int) ^ b = 2 ^ e * 2 ^ 24" by (simp only: power_add)
  have epos: "(0::int) < 2 ^ e" by simp
  have n_eq: "n = q * 2 ^ e + r" by (simp only: q_def r_def div_mult_mod_eq)
  have r_bounds: "0 \<le> r" "r < 2 ^ e" by (simp_all add: r_def)
  have q_hi: "q < 2 ^ 24"
  proof (rule ccontr)
    assume "\<not> q < 2 ^ 24"
    then have "2 ^ 24 \<le> q" by simp
    then have "2 ^ 24 * 2 ^ e \<le> q * (2 ^ e :: int)" by (rule mult_right_mono) simp
    with n_eq r_bounds have "2 ^ 24 * 2 ^ e \<le> n" by linarith
    with b pow show False by (simp add: mult.commute)
  qed
  have q_lo: "1 \<le> q"
  proof (rule ccontr)
    assume "\<not> 1 \<le> q"
    then have "q \<le> 0" by simp
    then have "q * (2 ^ e :: int) \<le> 0 * 2 ^ e" by (rule mult_right_mono) simp
    with n_eq r_bounds have lt: "n < 2 ^ e" by simp
    from b_lo have "e \<le> b - 1" by (simp add: e_def)
    then have "(2::int) ^ e \<le> 2 ^ (b - 1)" by (rule power_increasing) simp
    with b lt show False by linarith
  qed
  have q'_cases: "q' = q \<or> q' = q + 1" by (simp add: q'_def)
  have val: "float32_of_int n = Finite (of_int (q' * 2 ^ e))"
    using False lo
    by (simp add: float32_of_int_def Let_def q'_def q_def r_def e_def b_def)
  have k_lo: "1 \<le> q' * 2 ^ e"
  proof -
    from q_lo q'_cases have "1 \<le> q'" by auto
    moreover have "(1::int) \<le> 2 ^ e" by simp
    ultimately have "1 * 1 \<le> q' * (2 ^ e :: int)" by (intro mult_mono) simp_all
    then show ?thesis by simp
  qed
  have k_hi: "q' * 2 ^ e < 2 ^ 63"
  proof (cases "b = 63")
    case True
    then have e39: "e = 39" by (simp add: e_def)
    have q'_hi: "q' < 2 ^ 24"
    proof (rule ccontr)
      assume "\<not> q' < 2 ^ 24"
      with q_hi q'_cases have qq: "q = 2 ^ 24 - 1" "q' = q + 1" by auto
      then have "2 ^ (e - 1) \<le> r" by (auto simp: q'_def split: if_splits)
      with e39 have "2 ^ 38 \<le> r" by simp
      with n_eq qq e39 hi show False by simp
    qed
    then have "q' \<le> 2 ^ 24 - 1" by simp
    then have "q' * 2 ^ 39 \<le> (2 ^ 24 - 1) * 2 ^ 39" by (rule mult_right_mono) simp
    with e39 show ?thesis by simp
  next
    case False
    with b_hi have "b \<le> 62" by simp
    then have b62: "(2::int) ^ b \<le> 2 ^ 62" by (rule power_increasing) simp
    from q_hi q'_cases have "q' \<le> 2 ^ 24" by auto
    then have "q' * 2 ^ e \<le> 2 ^ 24 * (2 ^ e :: int)" by (rule mult_right_mono) simp
    also have "\<dots> = 2 ^ b" by (simp only: pow mult.commute)
    also note b62
    finally have "q' * 2 ^ e \<le> 2 ^ 62" .
    then show ?thesis by simp
  qed
  from val k_lo k_hi show ?thesis by blast
qed

lemma float32_of_int_Finite: "\<exists>r. float32_of_int n = Finite r"
  by (simp add: float32_of_int_def Let_def)

lemma float_gt_of_int: "1 \<le> k \<Longrightarrow> float_gt (Finite (of_int k)) const_0_001"
proof -
  assume "1 \<le> k"
  then have "(1::rat) \<le> of_int k" by simp
  moreover have "const_0_001 < 1" by (simp add: const_0_001_def)
  ultimately show ?thesis by (simp add: float_gt_def)
qed

lemma int_of_float_of_int:
  "- (2 ^ 63) \<le> k \<Longrightarrow> k < 2 ^ 63 \<Longrightarrow> int_of_float oor (Finite (of_int k)) = word_of_int k"
  by (simp add: int_of_float_def trunc_def)

lemma word_of_int_nonzero:
  assumes "1 \<le> k" "k < 2 ^ 63"
  shows "(word_of_int k :: 64 word) \<noteq> 0"
proof
  assume "(word_of_int k :: 64 word) = 0"
  then have "2 ^ 64 dvd k" by (simp add: word_of_int_eq_0_iff)
  with assms show False by (auto dest: zdvd_imp_le)
qed


subsection \<open>What the client calls do to the state\<close>

lemma Set_result: "fst (ConfigEntries_Set e s) = set_outcome s e"
  by (simp add: ConfigEntries_Set_def Let_def split: sum.splits bool.splits)

lemma Set_calls: "set_calls (snd (ConfigEntries_Set e s)) = set_calls s @ [e]"
  by (simp add: ConfigEntries_Set_def Let_def split: sum.splits bool.splits)

lemma Set_entries:
  "entries (snd (ConfigEntries_Set e s)) =
     (if set_outcome s e = Inr True then (entries s)((GetKind e, GetName e) \<mapsto> e) else entries s)"
  by (simp add: ConfigEntries_Set_def Let_def split: sum.splits bool.splits)

lemma Set_frame:
  "get_failure (snd (ConfigEntries_Set e s)) = get_failure s"
  "set_outcome (snd (ConfigEntries_Set e s)) = set_outcome s"
  "datacenters (snd (ConfigEntries_Set e s)) = datacenters s"
  "warnings (snd (ConfigEntries_Set e s)) = warnings s"
  by (simp_all add: ConfigEntries_Set_def Let_def split: sum.splits bool.splits)

lemma Set_case:
  "(case ConfigEntries_Set e s of (Inl err, s') \<Rightarrow> f err s' | (Inr b, s') \<Rightarrow> g b s') =
   (case set_outcome s e of
      Inl err \<Rightarrow> f err (snd (ConfigEntries_Set e s))
    | Inr b \<Rightarrow> g b (snd (ConfigEntries_Set e s)))"
  using Set_result [of e s]
  by (cases "ConfigEntries_Set e s") (auto split: sum.splits)

lemma updateSplitter_unfold:
  "updateSplitter canary pw sw s =
     (case set_outcome s (sent_splitter canary pw sw) of
        Inl err \<Rightarrow> Some (SetSplitterFailed (apexName canary) (Namespace canary) err)
      | Inr _ \<Rightarrow> None,
      snd (ConfigEntries_Set (sent_splitter canary pw sw) s))"
  by (cases "float_gt pw const_0_001"; cases "float_gt sw const_0_001")
     (simp_all add: updateSplitter_def GetServiceNames_def Let_def Set_case split: sum.splits)

lemma updateSplitter_calls:
  "set_calls (snd (updateSplitter canary pw sw s)) = set_calls s @ [sent_splitter canary pw sw]"
  by (simp only: updateSplitter_unfold snd_conv Set_calls)

lemma updateSplitter_entries:
  "entries (snd (updateSplitter canary pw sw s)) =
     (if set_outcome s (sent_splitter canary pw sw) = Inr True
      then (entries s)((ServiceSplitter, apexName canary) \<mapsto> sent_splitter canary pw sw)
      else entries s)"
  by (simp only: updateSplitter_unfold snd_conv Set_entries) simp

lemma updateSplitter_frame:
  "get_failure (snd (updateSplitter canary pw sw s)) = get_failure s"
  "set_outcome (snd (updateSplitter canary pw sw s)) = set_outcome s"
  "datacenters (snd (updateSplitter canary pw sw s)) = datacenters s"
  "warnings (snd (updateSplitter canary pw sw s)) = warnings s"
  by (simp_all only: updateSplitter_unfold snd_conv Set_frame)


lemma Warnf_frame:
  "set_outcome (Warnf msg s) = set_outcome s"
  "entries (Warnf msg s) = entries s"
  "get_failure (Warnf msg s) = get_failure s"
  "set_calls (Warnf msg s) = set_calls s"
  "datacenters (Warnf msg s) = datacenters s"
  "warnings (Warnf msg s) = warnings s @ [msg]"
  by (simp_all add: Warnf_def)

lemma reconcileResolver_unfold:
  "reconcileResolver canary s =
     (case set_outcome s (sent_resolver canary (remote_datacenters s)) of
        Inl err \<Rightarrow> Some (ResolverCreationFailed (apexName canary) (Namespace canary) err)
      | Inr result \<Rightarrow>
          if result then None else Some (ResolverNotCreated (apexName canary) (Namespace canary)),
      snd (ConfigEntries_Set (sent_resolver canary (remote_datacenters s))
             (case datacenters s of
                Inl err \<Rightarrow> Warnf (''Failed to fetch dc list '' @ err) s
              | Inr ds \<Rightarrow> s)))"
proof (cases "datacenters s")
  case (Inl err)
  then show ?thesis
    by (simp add: reconcileResolver_def GetServiceNames_def Catalog_Datacenters_def Let_def
        Set_case Warnf_frame split: sum.splits)
next
  case (Inr ds)
  then show ?thesis
    by (cases ds)
       (simp_all add: reconcileResolver_def GetServiceNames_def Catalog_Datacenters_def Let_def
          Set_case split: sum.splits)
qed

lemma reconcileResolver_calls:
  "set_calls (snd (reconcileResolver canary s)) =
     set_calls s @ [sent_resolver canary (remote_datacenters s)]"
  by (simp only: reconcileResolver_unfold snd_conv Set_calls)
     (simp add: Warnf_frame split: sum.splits)

lemma reconcileResolver_entries:
  "entries (snd (reconcileResolver canary s)) =
     (if set_outcome s (sent_resolver canary (remote_datacenters s)) = Inr True
      then (entries s)((ServiceResolver, apexName canary) \<mapsto>
             sent_resolver canary (remote_datacenters s))
      else entries s)"
  by (simp only: reconcileResolver_unfold snd_conv Set_entries)
     (simp add: Warnf_frame split: sum.splits)

lemma reconcileResolver_frame:
  "get_failure (snd (reconcileResolver canary s)) = get_failure s"
  "set_outcome (snd (reconcileResolver canary s)) = set_outcome s"
  "datacenters (snd (reconcileResolver canary s)) = datacenters s"
  by (simp_all only: reconcileResolver_unfold snd_conv Set_frame)
     (simp_all add: Warnf_frame split: sum.splits)

lemma reconcileResolver_warnings:
  "warnings (snd (reconcileResolver canary s)) =
     warnings s @ (case datacenters s of
                     Inl err \<Rightarrow> [''Failed to fetch dc list '' @ err] | Inr ds \<Rightarrow> [])"
  by (simp only: reconcileResolver_unfold snd_conv Set_frame)
     (simp add: Warnf_frame split: sum.splits)

lemma reconcileResolver_keeps_splitter:
  "entries (snd (reconcileResolver canary s)) (ServiceSplitter, name) =
     entries s (ServiceSplitter, name)"
  by (simp add: reconcileResolver_entries ServiceSplitter_def ServiceResolver_def)

lemma reconcileResolver_keeps_Get:
  "ConfigEntries_Get ServiceSplitter name (snd (reconcileResolver canary s)) =
     ConfigEntries_Get ServiceSplitter name s"
  by (simp add: ConfigEntries_Get_def reconcileResolver_keeps_splitter reconcileResolver_frame
      cong: option.case_cong)

lemma reconcileSplitter_unfold:
  "reconcileSplitter canary s =
     (case ConfigEntries_Get ServiceSplitter (apexName canary) s of
        Inl err \<Rightarrow> updateSplitter canary (Finite 100) (Finite 0) s
      | Inr entry \<Rightarrow> (None, s))"
  by (simp add: reconcileSplitter_def GetServiceNames_def split: sum.splits prod.splits option.splits)

lemma Reconcile_unfold:
  "Reconcile canary s =
     (case fst (reconcileResolver canary s) of
        Some err \<Rightarrow> (Some err, snd (reconcileResolver canary s))
      | None \<Rightarrow> reconcileSplitter canary (snd (reconcileResolver canary s)))"
  by (simp add: Reconcile_def split: sum.splits prod.splits option.splits)

lemma float_gt_bootstrap:
  "float_gt (Finite 100) const_0_001" "\<not> float_gt (Finite 0) const_0_001"
  by (simp_all add: float_gt_def const_0_001_def)

lemma Reconcile_calls:
  "calls_during s (snd (Reconcile canary s)) =
     sent_resolver canary (remote_datacenters s)
     # (if fst (reconcileResolver canary s) = None
           \<and> isl (ConfigEntries_Get ServiceSplitter (apexName canary) s)
        then [bootstrap canary] else [])"
  by (simp add: Reconcile_unfold reconcileSplitter_unfold calls_during_def
      reconcileResolver_calls reconcileResolver_keeps_Get updateSplitter_calls
      float_gt_bootstrap split: option.splits sum.splits)


lemma GetRoutes_of_splitter:
  assumes "ConfigEntries_Get ServiceSplitter (apexName canary) s = Inr (Splitter sp)"
    and "scanSplits oor (Splits sp) (0, 0) \<noteq> (0, 0)"
  shows "snd (snd (snd (GetRoutes oor canary s))) = None"
  using assms by (auto simp: GetRoutes_def GetServiceNames_def split: prod.splits)

lemma scanSplits_weights:
  assumes "int_of_float oor w \<noteq> 0"
  shows "scanSplits oor [\<lparr>split_Weight = w, split_Service = a, split_ServiceSubset = ''primary''\<rparr>] (0, 0) \<noteq> (0, 0)"
    and "scanSplits oor [\<lparr>split_Weight = w, split_Service = a, split_ServiceSubset = ''canary''\<rparr>] (0, 0) \<noteq> (0, 0)"
    and "scanSplits oor [\<lparr>split_Weight = w, split_Service = a, split_ServiceSubset = ''primary''\<rparr>,
           \<lparr>split_Weight = w', split_Service = a, split_ServiceSubset = ''canary''\<rparr>] (0, 0) \<noteq> (0, 0)"
    and "scanSplits oor [\<lparr>split_Weight = w', split_Service = a, split_ServiceSubset = ''primary''\<rparr>,
           \<lparr>split_Weight = w, split_Service = a, split_ServiceSubset = ''canary''\<rparr>] (0, 0) \<noteq> (0, 0)"
  using assms by (simp_all add: Let_def)

lemmas fixture_defs = app_def fresh_agent_def accept_all_def weighted_agent_def flaky_agent_def
  corrupted_agent_def split_50_50_def stray_split_def

lemma Reconcile_fresh:
  "fst (Reconcile app fresh_agent) = None"
  "entries (snd (Reconcile app fresh_agent)) (ServiceSplitter, ''app'') = Some (bootstrap app)"
  "get_failure (snd (Reconcile app fresh_agent)) = Map.empty"
  by (simp_all add: Reconcile_unfold reconcileSplitter_unfold reconcileResolver_unfold
      updateSplitter_unfold Set_entries Set_frame ConfigEntries_Get_def fixture_defs
      float_gt_bootstrap ServiceSplitter_def ServiceResolver_def)


lemma Reconcile_resolvers:
  "resolvers_of (calls_during s (snd (Reconcile canary s))) =
     [\<lparr>resolver_Kind = ServiceResolver, resolver_Name = apexName canary,
        DefaultSubset = ''primary'',
        Subsets =
          [''primary'' \<mapsto>
             \<lparr>Filter = ''Service.ID matches '' @ quote @ primaryName canary @ ''-.+'' @ quote\<rparr>,
           ''canary'' \<mapsto>
             \<lparr>Filter = ''Service.ID not matches '' @ quote @ primaryName canary @ ''-.+'' @ quote\<rparr>],
        Failover =
          (if remote_datacenters s = [] then Map.empty
           else [''primary'' \<mapsto> \<lparr>failover_Service = apexName canary,
                                  failover_ServiceSubset = ''primary'',
                                  Datacenters = remote_datacenters s\<rparr>,
                 ''canary'' \<mapsto> \<lparr>failover_Service = apexName canary,
                                 failover_ServiceSubset = ''canary'',
                                 Datacenters = remote_datacenters s\<rparr>])\<rparr>]"
  by (simp add: Reconcile_calls)

lemma Reconcile_result:
  "fst (Reconcile canary s) =
     (case fst (reconcileResolver canary s) of
        Some err \<Rightarrow> Some err
      | None \<Rightarrow>
          (case ConfigEntries_Get ServiceSplitter (apexName canary) s of
             Inr entry \<Rightarrow> None
           | Inl _ \<Rightarrow>
               (case set_outcome s (bootstrap canary) of
                  Inl err \<Rightarrow> Some (SetSplitterFailed (apexName canary) (Namespace canary) err)
                | Inr _ \<Rightarrow> None)))"
  by (simp add: Reconcile_unfold reconcileSplitter_unfold reconcileResolver_keeps_Get
      updateSplitter_unfold reconcileResolver_frame float_gt_bootstrap
      split: option.splits sum.splits)

lemma Reconcile_entries:
  "entries (snd (Reconcile canary s)) =
     (if fst (reconcileResolver canary s) = None
         \<and> isl (ConfigEntries_Get ServiceSplitter (apexName canary) s)
         \<and> set_outcome s (bootstrap canary) = Inr True
      then (entries (snd (reconcileResolver canary s)))
             ((ServiceSplitter, apexName canary) \<mapsto> bootstrap canary)
      else entries (snd (reconcileResolver canary s)))"
  by (simp add: Reconcile_unfold reconcileSplitter_unfold reconcileResolver_keeps_Get
      updateSplitter_entries reconcileResolver_frame float_gt_bootstrap
      split: option.splits sum.splits)

lemma Reconcile_warnings:
  "warnings (snd (Reconcile canary s)) = warnings (snd (reconcileResolver canary s))"
  by (simp add: Reconcile_unfold reconcileSplitter_unfold updateSplitter_frame
      split: option.splits sum.splits)

lemma reconcileResolver_result:
  "fst (reconcileResolver canary s) =
     (case set_outcome s (sent_resolver canary (remote_datacenters s)) of
        Inl err \<Rightarrow> Some (ResolverCreationFailed (apexName canary) (Namespace canary) err)
      | Inr result \<Rightarrow>
          if result then None else Some (ResolverNotCreated (apexName canary) (Namespace canary)))"
  by (simp only: reconcileResolver_unfold fst_conv)


text \<open>Without a positive weight, \<open>SetRoutes\<close> sends a split with no entries.\<close>

lemma float32_of_int_nonpositive:
  assumes "n \<le> 0"
  shows "\<not> float_gt (float32_of_int n) const_0_001"
proof -
  have c: "0 < const_0_001" by (simp add: const_0_001_def)
  show ?thesis
  proof (cases "\<bar>n\<bar> < 2 ^ 24")
    case True
    from assms have "(of_int n :: rat) \<le> 0" by simp
    with c True show ?thesis by (simp add: float32_of_int_def float_gt_def)
  next
    case False
    define e where "e = bitlen \<bar>n\<bar> - 24"
    define q where "q = \<bar>n\<bar> div 2 ^ e"
    define q' where "q' = (if 2 ^ (e - 1) < \<bar>n\<bar> mod 2 ^ e
        \<or> (\<bar>n\<bar> mod 2 ^ e = 2 ^ (e - 1) \<and> odd q) then q + 1 else q)"
    have "0 \<le> q" by (simp add: q_def pos_imp_zdiv_nonneg_iff)
    then have "0 \<le> q'" by (simp add: q'_def)
    then have nn: "0 \<le> q' * 2 ^ e" by simp
    from False assms have "n < 0" by auto
    then have "sgn n = - 1" by simp
    then have "sgn n * (q' * 2 ^ e) \<le> 0" using nn by simp
    then have "(of_int (sgn n * (q' * 2 ^ e)) :: rat) \<le> 0" by (simp only: of_int_le_0_iff)
    moreover have "float32_of_int n = Finite (of_int (sgn n * (q' * 2 ^ e)))"
      using False by (simp add: float32_of_int_def Let_def q'_def q_def e_def)
    ultimately show ?thesis using c by (simp add: float_gt_def)
  qed
qed

lemma SetRoutes_no_positive_weight:
  assumes "sint p \<le> 0" and "sint c \<le> 0"
  shows "splitters_of (calls_during s (snd (SetRoutes canary p c mirrored s))) =
           [\<lparr>splitter_Kind = ServiceSplitter, splitter_Name = apexName canary, Splits = []\<rparr>]"
  using assms
  by (simp add: SetRoutes_def updateSplitter_calls calls_during_def float32_of_int_nonpositive)


subsection \<open>Writing and reading the split\<close>

text \<open>
  Claim C1.  When the agent accepts every splitter it is sent and the read of the target's
  splitter reaches it, \<open>SetRoutes(target, 90, 10, false)\<close> succeeds and \<open>GetRoutes\<close> on the
  resulting state returns \<open>(90, 10, false)\<close> without error; \<open>SetRoutes(target, 100, 0, false)\<close>
  succeeds and \<open>GetRoutes\<close> returns \<open>(100, 0, false)\<close> without error, although the stored
  split then has the primary entry alone: the canary entry is left out on write and read
  back as weight 0.
\<close>

theorem SetRoutes_GetRoutes_roundtrip:
  assumes writable: "\<forall>e. set_outcome s (Splitter e) = Inr True"
    and readable: "get_failure s (ServiceSplitter, apexName canary) = None"
  shows "fst (SetRoutes canary 90 10 False s) = None
     \<and> GetRoutes oor canary (snd (SetRoutes canary 90 10 False s)) = (90, 10, False, None)
     \<and> fst (SetRoutes canary 100 0 False s) = None
     \<and> GetRoutes oor canary (snd (SetRoutes canary 100 0 False s)) = (100, 0, False, None)
     \<and> entries (snd (SetRoutes canary 100 0 False s)) (ServiceSplitter, apexName canary) =
         Some (Splitter \<lparr>splitter_Kind = ServiceSplitter, splitter_Name = apexName canary,
           Splits = [\<lparr>split_Weight = Finite 100, split_Service = apexName canary,
                      split_ServiceSubset = ''primary''\<rparr>]\<rparr>)"
  using writable readable
  by (simp add: router_defs float32_of_int_def)

theorem SetRoutes_GetRoutes_roundtrip_witness:
  "(\<forall>e. set_outcome fresh_agent (Splitter e) = Inr True)
   \<and> get_failure fresh_agent (ServiceSplitter, apexName app) = None
   \<and> fst (SetRoutes app 90 10 False fresh_agent) = None
   \<and> GetRoutes oor_min app (snd (SetRoutes app 90 10 False fresh_agent)) = (90, 10, False, None)
   \<and> fst (SetRoutes app 100 0 False fresh_agent) = None
   \<and> GetRoutes oor_min app (snd (SetRoutes app 100 0 False fresh_agent)) = (100, 0, False, None)"
  using SetRoutes_GetRoutes_roundtrip [of fresh_agent app oor_min]
  by (simp add: fresh_agent_def accept_all_def app_def)

text \<open>
  Claim C3.  When the stored split of the target has no entry for the subset \<open>primary\<close> and
  none for the subset \<open>canary\<close>, \<open>GetRoutes\<close> returns the error that the splitter contains no
  routes for the two subsets (the spec's ConfigInvalid), with both weights 0; it does not
  return them as a success.
\<close>

theorem GetRoutes_no_subset_entry_is_error:
  assumes "ConfigEntries_Get ServiceSplitter (apexName canary) s = Inr (Splitter sp)"
    and "\<forall>split \<in> set (Splits sp).
           split_ServiceSubset split \<noteq> ''primary'' \<and> split_ServiceSubset split \<noteq> ''canary''"
  shows "GetRoutes oor canary s =
           (0, 0, False, Some (NoRoutes (apexName canary) (Namespace canary)))"
  using assms by (simp add: GetRoutes_def GetServiceNames_def scanSplits_other_subsets)

theorem GetRoutes_no_subset_entry_is_error_witness:
  "ConfigEntries_Get ServiceSplitter (apexName app) corrupted_agent = Inr stray_split
   \<and> GetRoutes oor_min app corrupted_agent = (0, 0, False, Some (NoRoutes ''app'' ''prod''))"
  using GetRoutes_no_subset_entry_is_error
    [of app corrupted_agent
        "\<lparr>splitter_Kind = ServiceSplitter, splitter_Name = ''app'',
          Splits = [\<lparr>split_Weight = Finite 100, split_Service = ''app'',
                     split_ServiceSubset = ''v3''\<rparr>]\<rparr>"
        oor_min]
  by (simp add: corrupted_agent_def fresh_agent_def stray_split_def app_def ConfigEntries_Get_def)

text \<open>
  Claim C9.  \<open>SetRoutes\<close> does not look at its \<open>mirrored\<close> argument: for every target, every
  pair of weights and every state of the agent, the call with \<open>mirrored = true\<close> returns the
  same error or success and leaves the same state as the call with \<open>mirrored = false\<close>.
\<close>

theorem SetRoutes_ignores_mirrored:
  "SetRoutes canary primaryWeight canaryWeight True s =
   SetRoutes canary primaryWeight canaryWeight False s"
  by (simp add: SetRoutes_def)

text \<open>
  Claim C2, as the code has it.  The claim as stated fails: \<open>SetRoutes\<close> does not check
  its arguments, and for the weights \<open>(0, 0)\<close> it stores a split with no entry at all,
  which \<open>GetRoutes\<close> then rejects.
\<close>

theorem SetRoutes_zero_weights_counterexample:
  "fst (SetRoutes app 0 0 False fresh_agent) = None
   \<and> entries (snd (SetRoutes app 0 0 False fresh_agent)) (ServiceSplitter, ''app'') =
       Some (Splitter \<lparr>splitter_Kind = ServiceSplitter, splitter_Name = ''app'', Splits = []\<rparr>)
   \<and> GetRoutes oor_min app (snd (SetRoutes app 0 0 False fresh_agent)) =
        (0, 0, False, Some (NoRoutes ''app'' ''prod''))"
  by (simp add: router_defs float32_of_int_def fresh_agent_def accept_all_def app_def)

text \<open>
  Claim C2, amended.  When at least one of the two weights is at least 1 (and below
  \<open>2^63 - 2^38\<close>, so that its \<open>float32\<close> still converts back to an \<open>int\<close>), the split that
  \<open>SetRoutes\<close> sends has an entry for that subset and does not resolve to both weights
  zero; when the agent accepts the write and answers the read, it is the stored split and
  \<open>GetRoutes\<close> returns no error.
\<close>

theorem SetRoutes_positive_weight_not_both_zero:
  assumes positive: "(1 \<le> sint p \<and> sint p < 2 ^ 63 - 2 ^ 38) \<or> (1 \<le> sint c \<and> sint c < 2 ^ 63 - 2 ^ 38)"
    and writable: "\<forall>e. set_outcome s (Splitter e) = Inr True"
    and readable: "get_failure s (ServiceSplitter, apexName canary) = None"
  shows "(\<exists>sp. splitters_of (calls_during s (snd (SetRoutes canary p c mirrored s))) = [sp]
            \<and> entries (snd (SetRoutes canary p c mirrored s)) (ServiceSplitter, apexName canary) =
                Some (Splitter sp)
            \<and> scanSplits oor (Splits sp) (0, 0) \<noteq> (0, 0))
       \<and> snd (snd (snd (GetRoutes oor canary (snd (SetRoutes canary p c mirrored s))))) = None"
proof -
  define s' where "s' = snd (SetRoutes canary p c mirrored s)"
  obtain rp rc where fin: "float32_of_int (sint p) = Finite rp" "float32_of_int (sint c) = Finite rc"
    using float32_of_int_Finite by blast
  have sent: "\<exists>sp. splitters_of (calls_during s s') = [sp]
            \<and> entries s' (ServiceSplitter, apexName canary) = Some (Splitter sp)
            \<and> scanSplits oor (Splits sp) (0, 0) \<noteq> (0, 0)"
    using positive
  proof
    assume "1 \<le> sint p \<and> sint p < 2 ^ 63 - 2 ^ 38"
    then obtain k where k: "float32_of_int (sint p) = Finite (of_int k)" "1 \<le> k" "k < 2 ^ 63"
      using float32_of_int_range by blast
    then have "int_of_float oor (Finite (of_int k)) \<noteq> 0"
      by (simp add: int_of_float_of_int word_of_int_nonzero)
    with k fin(2) writable show ?thesis
      by (simp add: s'_def SetRoutes_def updateSplitter_calls updateSplitter_entries
          calls_during_def float_gt_of_int scanSplits_weights)
  next
    assume "1 \<le> sint c \<and> sint c < 2 ^ 63 - 2 ^ 38"
    then obtain k where k: "float32_of_int (sint c) = Finite (of_int k)" "1 \<le> k" "k < 2 ^ 63"
      using float32_of_int_range by blast
    then have "int_of_float oor (Finite (of_int k)) \<noteq> 0"
      by (simp add: int_of_float_of_int word_of_int_nonzero)
    with k fin(1) writable show ?thesis
      by (simp add: s'_def SetRoutes_def updateSplitter_calls updateSplitter_entries
          calls_during_def float_gt_of_int scanSplits_weights)
  qed
  then obtain sp where sp: "entries s' (ServiceSplitter, apexName canary) = Some (Splitter sp)"
      "scanSplits oor (Splits sp) (0, 0) \<noteq> (0, 0)"
    by blast
  have "get_failure s' = get_failure s"
    by (simp add: s'_def SetRoutes_def updateSplitter_frame)
  with sp(1) readable
  have "ConfigEntries_Get ServiceSplitter (apexName canary) s' = Inr (Splitter sp)"
    by (simp add: ConfigEntries_Get_def)
  then have "snd (snd (snd (GetRoutes oor canary s'))) = None"
    using sp(2) by (rule GetRoutes_of_splitter)
  with sent show ?thesis by (simp add: s'_def)
qed

theorem SetRoutes_positive_weight_not_both_zero_witness:
  "((1 \<le> sint (0 :: goint) \<and> sint (0 :: goint) < 2 ^ 63 - 2 ^ 38)
      \<or> (1 \<le> sint (5 :: goint) \<and> sint (5 :: goint) < 2 ^ 63 - 2 ^ 38))
   \<and> (\<forall>e. set_outcome fresh_agent (Splitter e) = Inr True)
   \<and> get_failure fresh_agent (ServiceSplitter, apexName app) = None
   \<and> snd (snd (snd (GetRoutes oor_min app (snd (SetRoutes app 0 5 False fresh_agent))))) = None"
  using SetRoutes_positive_weight_not_both_zero [of 0 5 fresh_agent app False oor_min]
  by (simp add: fresh_agent_def accept_all_def app_def)

subsection \<open>Reconciling the split\<close>

text \<open>
  Claim C4, as the code has it.  The claim as stated fails: that the split exists is not
  enough.  \<open>reconcileSplitter\<close> learns of the split only through the read, and when the read
  of a stored split of 50 and 50 fails, \<open>Reconcile\<close> issues a \<open>Set\<close> call for a splitter
  and replaces the stored split by \<open>primary: 100\<close>.
\<close>

theorem Reconcile_existing_split_counterexample:
  "entries flaky_agent (ServiceSplitter, apexName app) = Some split_50_50
   \<and> splitters_of (calls_during flaky_agent (snd (Reconcile app flaky_agent))) =
        [\<lparr>splitter_Kind = ServiceSplitter, splitter_Name = ''app'',
          Splits = [\<lparr>split_Weight = Finite 100, split_Service = ''app'',
                     split_ServiceSubset = ''primary''\<rparr>]\<rparr>]
   \<and> entries (snd (Reconcile app flaky_agent)) (ServiceSplitter, apexName app) =
        Some (Splitter \<lparr>splitter_Kind = ServiceSplitter, splitter_Name = ''app'',
          Splits = [\<lparr>split_Weight = Finite 100, split_Service = ''app'',
                     split_ServiceSubset = ''primary''\<rparr>]\<rparr>)
   \<and> entries (snd (Reconcile app flaky_agent)) (ServiceSplitter, apexName app) \<noteq>
        entries flaky_agent (ServiceSplitter, apexName app)"
proof -
  have get: "ConfigEntries_Get ServiceSplitter (apexName app) flaky_agent = Inl ''connection reset''"
    by (simp add: ConfigEntries_Get_def fixture_defs)
  have res: "fst (reconcileResolver app flaky_agent) = None"
    by (simp add: reconcileResolver_result fixture_defs)
  have wr: "set_outcome flaky_agent (bootstrap app) = Inr True"
    by (simp add: fixture_defs)
  have before: "entries flaky_agent (ServiceSplitter, apexName app) = Some split_50_50"
    by (simp add: fixture_defs)
  have calls: "splitters_of (calls_during flaky_agent (snd (Reconcile app flaky_agent))) =
        [\<lparr>splitter_Kind = ServiceSplitter, splitter_Name = ''app'',
          Splits = [\<lparr>split_Weight = Finite 100, split_Service = ''app'',
                     split_ServiceSubset = ''primary''\<rparr>]\<rparr>]"
    using get res by (simp add: Reconcile_calls) (simp add: app_def)
  have after: "entries (snd (Reconcile app flaky_agent)) (ServiceSplitter, apexName app) =
        Some (Splitter \<lparr>splitter_Kind = ServiceSplitter, splitter_Name = ''app'',
          Splits = [\<lparr>split_Weight = Finite 100, split_Service = ''app'',
                     split_ServiceSubset = ''primary''\<rparr>]\<rparr>)"
    using get res wr by (simp add: Reconcile_entries) (simp add: app_def)
  have "Some (Splitter \<lparr>splitter_Kind = ServiceSplitter, splitter_Name = ''app'',
          Splits = [\<lparr>split_Weight = Finite 100, split_Service = ''app'',
                     split_ServiceSubset = ''primary''\<rparr>]\<rparr>) \<noteq> Some split_50_50"
    by (simp add: split_50_50_def)
  with before calls after show ?thesis by simp
qed

text \<open>
  Claim C4, amended.  When the read of the target's split returns an entry, that is, the
  split exists and the agent answers the read, \<open>Reconcile\<close> issues no \<open>Set\<close> call for a
  splitter and the entry stored under the splitter kind and the apex name is the same after
  the call as before, weights included.  Hence \<open>Reconcile\<close> writes a splitter only when the
  read did not return one.
\<close>

theorem Reconcile_leaves_existing_split:
  assumes "ConfigEntries_Get ServiceSplitter (apexName canary) s = Inr entry"
  shows "splitters_of (calls_during s (snd (Reconcile canary s))) = []
       \<and> entries (snd (Reconcile canary s)) (ServiceSplitter, apexName canary) =
           entries s (ServiceSplitter, apexName canary)"
proof
  from assms show "splitters_of (calls_during s (snd (Reconcile canary s))) = []"
    by (simp add: Reconcile_calls)
  from assms show "entries (snd (Reconcile canary s)) (ServiceSplitter, apexName canary) =
      entries s (ServiceSplitter, apexName canary)"
    by (simp add: Reconcile_unfold reconcileSplitter_unfold reconcileResolver_keeps_splitter
        reconcileResolver_keeps_Get split: option.splits)
qed

text \<open>The second of two calls on an agent that starts without entries.\<close>

theorem Reconcile_leaves_existing_split_witness:
  "ConfigEntries_Get ServiceSplitter (apexName app) (snd (Reconcile app fresh_agent)) =
      Inr (bootstrap app)
   \<and> splitters_of (calls_during (snd (Reconcile app fresh_agent))
        (snd (Reconcile app (snd (Reconcile app fresh_agent))))) = []
   \<and> entries (snd (Reconcile app (snd (Reconcile app fresh_agent)))) (ServiceSplitter, ''app'') =
      Some (bootstrap app)"
proof -
  have get: "ConfigEntries_Get ServiceSplitter (apexName app) (snd (Reconcile app fresh_agent)) =
      Inr (bootstrap app)"
    using Reconcile_fresh by (simp add: ConfigEntries_Get_def app_def)
  from Reconcile_leaves_existing_split [OF get] get Reconcile_fresh show ?thesis by (simp add: app_def)
qed

text \<open>
  Claim C6.  \<open>reconcileSplitter\<close> does not look at the error of the read: whenever the read
  of the split fails, for whatever reason, it calls \<open>updateSplitter\<close> with the weights
  \<open>100\<close> and \<open>0\<close>.  So when the resolver step has succeeded and the agent accepts the
  write, \<open>Reconcile\<close> succeeds and the entry stored for the apex name is then the split with the
  single entry \<open>primary: 100\<close>, whatever was stored before.
\<close>

theorem Reconcile_read_failure_writes_bootstrap:
  assumes read_fails: "ConfigEntries_Get ServiceSplitter (apexName canary) s = Inl err"
    and resolver_ok: "fst (reconcileResolver canary s) = None"
    and writable: "set_outcome s (bootstrap canary) = Inr True"
  shows "reconcileSplitter canary s = updateSplitter canary (Finite 100) (Finite 0) s
       \<and> fst (Reconcile canary s) = None
       \<and> splitters_of (calls_during s (snd (Reconcile canary s))) =
           [\<lparr>splitter_Kind = ServiceSplitter, splitter_Name = apexName canary,
             Splits = [\<lparr>split_Weight = Finite 100, split_Service = apexName canary,
                        split_ServiceSubset = ''primary''\<rparr>]\<rparr>]
       \<and> entries (snd (Reconcile canary s)) (ServiceSplitter, apexName canary) =
           Some (bootstrap canary)"
proof (intro conjI)
  from read_fails
  show "reconcileSplitter canary s = updateSplitter canary (Finite 100) (Finite 0) s"
    by (simp add: reconcileSplitter_unfold)
  have run: "Reconcile canary s =
      updateSplitter canary (Finite 100) (Finite 0) (snd (reconcileResolver canary s))"
    using read_fails resolver_ok
    by (simp add: Reconcile_unfold reconcileSplitter_unfold reconcileResolver_keeps_Get)
  from writable show "fst (Reconcile canary s) = None"
    by (simp add: run updateSplitter_unfold reconcileResolver_frame float_gt_bootstrap)
  from read_fails resolver_ok
  show "splitters_of (calls_during s (snd (Reconcile canary s))) =
           [\<lparr>splitter_Kind = ServiceSplitter, splitter_Name = apexName canary,
             Splits = [\<lparr>split_Weight = Finite 100, split_Service = apexName canary,
                        split_ServiceSubset = ''primary''\<rparr>]\<rparr>]"
    by (simp add: Reconcile_calls)
  from writable
  show "entries (snd (Reconcile canary s)) (ServiceSplitter, apexName canary) =
           Some (bootstrap canary)"
    by (simp add: run updateSplitter_entries reconcileResolver_frame float_gt_bootstrap)
qed

text \<open>A stored split of 50 and 50 whose read fails with a connection error is overwritten.\<close>

theorem Reconcile_read_failure_writes_bootstrap_witness:
  "ConfigEntries_Get ServiceSplitter (apexName app) flaky_agent = Inl ''connection reset''
   \<and> entries flaky_agent (ServiceSplitter, ''app'') = Some split_50_50
   \<and> fst (reconcileResolver app flaky_agent) = None
   \<and> set_outcome flaky_agent (bootstrap app) = Inr True
   \<and> fst (Reconcile app flaky_agent) = None
   \<and> entries (snd (Reconcile app flaky_agent)) (ServiceSplitter, ''app'') = Some (bootstrap app)
   \<and> bootstrap app \<noteq> split_50_50"
proof -
  have get: "ConfigEntries_Get ServiceSplitter (apexName app) flaky_agent = Inl ''connection reset''"
    by (simp add: ConfigEntries_Get_def fixture_defs)
  have res: "fst (reconcileResolver app flaky_agent) = None"
    by (simp add: reconcileResolver_unfold fixture_defs)
  have wr: "set_outcome flaky_agent (bootstrap app) = Inr True"
    by (simp add: fixture_defs)
  from Reconcile_read_failure_writes_bootstrap [OF get res wr] get res wr show ?thesis
    by (simp add: fixture_defs)
qed


subsection \<open>The resolver\<close>

text \<open>
  Claim C5.  \<open>Reconcile\<close> sends exactly one resolver.  When discovery returns at least two
  datacenters, its failover map has an entry for \<open>primary\<close> and one for \<open>canary\<close>, both
  naming the apex service and both listing the discovered datacenters without the first, in
  the order of discovery.  When discovery returns one datacenter or none, or fails, the
  failover map is empty.  A failed discovery is only logged: \<open>Reconcile\<close> then returns the
  same result, issues the same calls and leaves the same entries as when discovery returns
  no datacenter.
\<close>

theorem Reconcile_failover_population:
  "map Failover (resolvers_of (calls_during s (snd (Reconcile canary s)))) =
     [case datacenters s of
        Inr (local # remote # remotes) \<Rightarrow>
          [''primary'' \<mapsto> \<lparr>failover_Service = apexName canary,
                              failover_ServiceSubset = ''primary'',
                              Datacenters = remote # remotes\<rparr>,
           ''canary'' \<mapsto> \<lparr>failover_Service = apexName canary,
                             failover_ServiceSubset = ''canary'',
                             Datacenters = remote # remotes\<rparr>]
      | _ \<Rightarrow> Map.empty]
   \<and> fst (Reconcile canary (s\<lparr>datacenters := Inl err\<rparr>)) =
       fst (Reconcile canary (s\<lparr>datacenters := Inr []\<rparr>))
   \<and> entries (snd (Reconcile canary (s\<lparr>datacenters := Inl err\<rparr>))) =
       entries (snd (Reconcile canary (s\<lparr>datacenters := Inr []\<rparr>)))
   \<and> calls_during (s\<lparr>datacenters := Inl err\<rparr>) (snd (Reconcile canary (s\<lparr>datacenters := Inl err\<rparr>))) =
       calls_during (s\<lparr>datacenters := Inr []\<rparr>) (snd (Reconcile canary (s\<lparr>datacenters := Inr []\<rparr>)))
   \<and> warnings (snd (Reconcile canary (s\<lparr>datacenters := Inl err\<rparr>))) =
       warnings s @ [''Failed to fetch dc list '' @ err]"
proof (intro conjI)
  show "map Failover (resolvers_of (calls_during s (snd (Reconcile canary s)))) =
     [case datacenters s of
        Inr (local # remote # remotes) \<Rightarrow>
          [''primary'' \<mapsto> \<lparr>failover_Service = apexName canary,
                              failover_ServiceSubset = ''primary'',
                              Datacenters = remote # remotes\<rparr>,
           ''canary'' \<mapsto> \<lparr>failover_Service = apexName canary,
                             failover_ServiceSubset = ''canary'',
                             Datacenters = remote # remotes\<rparr>]
      | _ \<Rightarrow> Map.empty]"
    unfolding Reconcile_resolvers by (simp split: sum.splits list.splits)
  have res: "fst (reconcileResolver canary (s\<lparr>datacenters := Inl err\<rparr>)) =
      fst (reconcileResolver canary (s\<lparr>datacenters := Inr []\<rparr>))"
    by (simp add: reconcileResolver_result)
  have get: "ConfigEntries_Get ServiceSplitter (apexName canary) (s\<lparr>datacenters := Inl err\<rparr>) =
      ConfigEntries_Get ServiceSplitter (apexName canary) (s\<lparr>datacenters := Inr []\<rparr>)"
    by (simp add: ConfigEntries_Get_def cong: option.case_cong)
  have ent: "entries (snd (reconcileResolver canary (s\<lparr>datacenters := Inl err\<rparr>))) =
      entries (snd (reconcileResolver canary (s\<lparr>datacenters := Inr []\<rparr>)))"
    by (simp add: reconcileResolver_entries)
  show "fst (Reconcile canary (s\<lparr>datacenters := Inl err\<rparr>)) =
       fst (Reconcile canary (s\<lparr>datacenters := Inr []\<rparr>))"
    by (simp add: Reconcile_result res get cong: option.case_cong sum.case_cong)
  show "entries (snd (Reconcile canary (s\<lparr>datacenters := Inl err\<rparr>))) =
       entries (snd (Reconcile canary (s\<lparr>datacenters := Inr []\<rparr>)))"
    by (simp add: Reconcile_entries res get ent cong: if_cong)
  show "calls_during (s\<lparr>datacenters := Inl err\<rparr>) (snd (Reconcile canary (s\<lparr>datacenters := Inl err\<rparr>))) =
       calls_during (s\<lparr>datacenters := Inr []\<rparr>) (snd (Reconcile canary (s\<lparr>datacenters := Inr []\<rparr>)))"
    by (simp add: Reconcile_calls res get cong: if_cong)
  show "warnings (snd (Reconcile canary (s\<lparr>datacenters := Inl err\<rparr>))) =
       warnings s @ [''Failed to fetch dc list '' @ err]"
    by (simp add: Reconcile_warnings reconcileResolver_warnings)
qed

text \<open>
  Three discovered datacenters give the two remote ones to both subsets; one datacenter or a
  failed discovery gives no failover, and reconciliation still succeeds.
\<close>

theorem Reconcile_failover_population_witness:
  "map Failover (resolvers_of (calls_during fresh_agent (snd (Reconcile app fresh_agent)))) =
     [[''primary'' \<mapsto> \<lparr>failover_Service = ''app'', failover_ServiceSubset = ''primary'',
                          Datacenters = [''dc2'', ''dc3'']\<rparr>,
       ''canary'' \<mapsto> \<lparr>failover_Service = ''app'', failover_ServiceSubset = ''canary'',
                         Datacenters = [''dc2'', ''dc3'']\<rparr>]]
   \<and> map Failover (resolvers_of (calls_during (fresh_agent\<lparr>datacenters := Inr [''dc1'']\<rparr>)
         (snd (Reconcile app (fresh_agent\<lparr>datacenters := Inr [''dc1'']\<rparr>))))) = [Map.empty]
   \<and> map Failover (resolvers_of (calls_during (fresh_agent\<lparr>datacenters := Inl ''timeout''\<rparr>)
         (snd (Reconcile app (fresh_agent\<lparr>datacenters := Inl ''timeout''\<rparr>))))) = [Map.empty]
   \<and> fst (Reconcile app (fresh_agent\<lparr>datacenters := Inl ''timeout''\<rparr>)) = None"
proof -
  have ok: "fst (Reconcile app (fresh_agent\<lparr>datacenters := Inr []\<rparr>)) = None"
    by (simp add: Reconcile_result reconcileResolver_result ConfigEntries_Get_def fixture_defs)
  show ?thesis
    using Reconcile_failover_population [of fresh_agent app "''timeout''"]
      Reconcile_failover_population [of "fresh_agent\<lparr>datacenters := Inr [''dc1'']\<rparr>" app "''timeout''"]
      Reconcile_failover_population [of "fresh_agent\<lparr>datacenters := Inl ''timeout''\<rparr>" app "''timeout''"] ok
    by (simp add: fixture_defs)
qed


subsection \<open>The subset filters\<close>

















section \<open>Properties of the metrics observer\<close>

lemma trunc_towards_zero:
  assumes "r \<notin> \<int>"
  shows "\<bar>of_int (trunc r)\<bar> < \<bar>r\<bar> \<and> \<bar>r\<bar> < \<bar>of_int (trunc r)\<bar> + 1
       \<and> 0 \<le> of_int (trunc r) * r"
proof -
  have "of_int \<lfloor>r\<rfloor> \<noteq> r" "of_int \<lceil>r\<rceil> \<noteq> r"
    using assms Ints_of_int by metis+
  then have fl: "of_int \<lfloor>r\<rfloor> < r" and ce: "r < of_int \<lceil>r\<rceil>"
    using of_int_floor_le [of r] le_of_int_ceiling [of r] by linarith+
  have fl1: "r < of_int \<lfloor>r\<rfloor> + 1" and ce1: "of_int \<lceil>r\<rceil> - 1 < r"
    by linarith+
  show ?thesis
  proof (cases "0 \<le> r")
    case True
    then have "0 \<le> \<lfloor>r\<rfloor>" by simp
    then have nn: "(0::rat) \<le> of_int \<lfloor>r\<rfloor>" by simp
    from True have t: "trunc r = \<lfloor>r\<rfloor>" by (simp add: trunc_def)
    have "\<bar>of_int \<lfloor>r\<rfloor>\<bar> < \<bar>r\<bar>" using nn True fl by linarith
    moreover have "\<bar>r\<bar> < \<bar>of_int \<lfloor>r\<rfloor>\<bar> + 1" using nn True fl1 by linarith
    moreover have "0 \<le> of_int \<lfloor>r\<rfloor> * r" using nn True by (rule mult_nonneg_nonneg)
    ultimately show ?thesis unfolding t by blast
  next
    case False
    then have neg: "r \<le> 0" by simp
    then have "\<lceil>r\<rceil> \<le> 0" by (simp add: ceiling_le_zero)
    then have np: "(of_int \<lceil>r\<rceil> :: rat) \<le> 0" by simp
    from False have t: "trunc r = \<lceil>r\<rceil>" by (simp add: trunc_def)
    have "\<bar>of_int \<lceil>r\<rceil>\<bar> < \<bar>r\<bar>" using np neg ce by linarith
    moreover have "\<bar>r\<bar> < \<bar>of_int \<lceil>r\<rceil>\<bar> + 1" using np neg ce1 by linarith
    moreover have "0 \<le> of_int \<lceil>r\<rceil> * r" using np neg by (rule mult_nonpos_nonpos)
    ultimately show ?thesis unfolding t by blast
  qed
qed

lemma trunc_in_range:
  assumes "\<bar>r\<bar> < 2 ^ 63"
  shows "- (2 ^ 63) \<le> trunc r" and "trunc r < 2 ^ 63"
proof -
  from assms have "- (2 ^ 63) < r" "r < 2 ^ 63" by (simp_all add: abs_less_iff)
  then have a: "- (2 ^ 63) \<le> \<lfloor>r\<rfloor>" "\<lfloor>r\<rfloor> < 2 ^ 63" "- (2 ^ 63) \<le> \<lceil>r\<rceil>" "\<lceil>r\<rceil> \<le> 2 ^ 63"
    by (simp_all add: le_floor_iff floor_less_iff le_ceiling_iff ceiling_le_iff)
  show "- (2 ^ 63) \<le> trunc r" using a by (simp add: trunc_def)
  show "trunc r < 2 ^ 63"
  proof (cases "0 \<le> r")
    case True with a show ?thesis by (simp add: trunc_def)
  next
    case False
    then have "\<lceil>r\<rceil> \<le> 0" by (simp add: ceiling_le_zero)
    with False show ?thesis by (simp add: trunc_def)
  qed
qed

text \<open>
  Claim C8.  When the request-duration query renders and its execution yields the scalar
  \<open>250\<close>, \<open>GetRequestDuration\<close> returns without error the duration \<open>250 * Millisecond\<close>,
  which is 250000000 nanoseconds.
\<close>

theorem GetRequestDuration_250_milliseconds:
  assumes "RenderQuery (query_text ''request-duration'') model = Inr query"
    and "RunQuery ob query = Inr (Finite 250)"
  shows "GetRequestDuration RenderQuery oor ob model = Inr (250 * Millisecond)
       \<and> sint (250 * Millisecond) = 250000000"
  using assms
  by (simp add: GetRequestDuration_def int_of_float_def trunc_def Millisecond_def)

theorem GetRequestDuration_250_milliseconds_witness:
  "render_verbatim (query_text ''request-duration'') () = Inr (query_text ''request-duration'')
   \<and> RunQuery (answering (Finite 250)) (query_text ''request-duration'') = Inr (Finite 250)
   \<and> GetRequestDuration render_verbatim oor_min (answering (Finite 250)) () = Inr 250000000"
  using GetRequestDuration_250_milliseconds [of render_verbatim "()" "query_text ''request-duration''" "answering (Finite 250)" oor_min]
  by (simp add: render_verbatim_def answering_def Millisecond_def)

text \<open>
  Claim C10.  When the query succeeds with a finite value that is not an integer,
  \<open>GetRequestDuration\<close> returns the value truncated towards zero, times a millisecond: the
  integer it multiplies has the sign of the value, is smaller in magnitude and differs from
  it by less than one.  (A \<open>float64\<close> that is not an integer is below \<open>2^53\<close> in magnitude,
  so it is in the range of \<open>int64\<close>.)  The \<open>float64\<close> nearest to 250.9 gives 250
  milliseconds, not 251.
\<close>

theorem GetRequestDuration_truncates:
  assumes "RenderQuery (query_text ''request-duration'') model = Inr query"
    and "RunQuery ob query = Inr (Finite r)"
    and "r \<notin> \<int>" and "\<bar>r\<bar> < 2 ^ 63"
  shows "GetRequestDuration RenderQuery oor ob model = Inr (word_of_int (trunc r) * Millisecond)
       \<and> \<bar>of_int (trunc r)\<bar> < \<bar>r\<bar> \<and> \<bar>r\<bar> < \<bar>of_int (trunc r)\<bar> + 1
       \<and> 0 \<le> of_int (trunc r) * r"
  using assms trunc_in_range [of r] trunc_towards_zero [of r]
  by (simp add: GetRequestDuration_def int_of_float_def Let_def)

theorem GetRequestDuration_truncates_witness:
  "render_verbatim (query_text ''request-duration'') () = Inr (query_text ''request-duration'')
   \<and> RunQuery (answering (Finite double_250_9)) (query_text ''request-duration'') =
        Inr (Finite double_250_9)
   \<and> double_250_9 \<notin> \<int> \<and> \<bar>double_250_9\<bar> < 2 ^ 63
   \<and> trunc double_250_9 = 250
   \<and> GetRequestDuration render_verbatim oor_min (answering (Finite double_250_9)) () =
        Inr (250 * Millisecond)
   \<and> (250 :: Duration) * Millisecond \<noteq> 251 * Millisecond"
proof -
  have fl: "\<lfloor>double_250_9\<rfloor> = 250"
    by (rule floor_unique) (simp_all add: double_250_9_def)
  then have t: "trunc double_250_9 = 250"
    by (simp add: trunc_def double_250_9_def)
  have ni: "double_250_9 \<notin> \<int>"
  proof
    assume "double_250_9 \<in> \<int>"
    then obtain z where "double_250_9 = of_int z" by (rule Ints_cases)
    then have "of_int \<lfloor>double_250_9\<rfloor> = double_250_9" by (metis floor_of_int)
    with fl show False by (simp add: double_250_9_def)
  qed
  have b: "\<bar>double_250_9\<bar> < 2 ^ 63" by (simp add: double_250_9_def)
  have r: "render_verbatim (query_text ''request-duration'') () = Inr (query_text ''request-duration'')"
    by (simp add: render_verbatim_def)
  have q: "RunQuery (answering (Finite double_250_9)) (query_text ''request-duration'') =
        Inr (Finite double_250_9)"
    by (simp add: answering_def)
  from GetRequestDuration_truncates [of render_verbatim "()" "query_text ''request-duration''"
        "answering (Finite double_250_9)" double_250_9 oor_min, OF r q ni b] t r q ni b
  show ?thesis
    by (simp add: Millisecond_def)
qed

end
